theory Spec2Isabelle
  imports Main "HOL-Library.Char_ord" "HOL-Library.List_Lexorder"
begin

section \<open>Asset staging (packages/@aws-cdk/core/lib/asset-staging.ts)\<close>

subsection \<open>Errors and results\<close>

text \<open>
  A thrown JavaScript value is a value of the model. \<open>Error m\<close> is \<^verbatim>\<open>new Error(m)\<close>;
  \<open>TypeError m\<close> is the built-in error raised by the runtime itself (for instance by
  \<^verbatim>\<open>Object.keys(null)\<close>). External code may throw anything: \<open>Thrown r\<close> is any other thrown
  value (a string, a number, an object, an error of another class), given by what its
  conversion to a string yields: \<open>Inr\<close> the text, or \<open>Inl\<close> the error that the conversion
  itself throws (as for a symbol, or an object whose \<^verbatim>\<open>toString\<close> throws).
  A computation that may throw returns \<open>error + 'a\<close>, with \<open>Inl\<close> for the thrown value.
\<close>

datatype error = Error string | TypeError string | Thrown "error + string"

text \<open>
  What a template literal \<^verbatim>\<open>${err}\<close> does with a caught value: the conversion to a string.
  \<^verbatim>\<open>Error.prototype.toString\<close> gives the name alone when the message is empty, and the
  name, a colon, a space and the message otherwise.
\<close>

fun error_toString :: "error \<Rightarrow> error + string" where
  "error_toString (Error m) = Inr (if m = [] then ''Error'' else ''Error: '' @ m)"
| "error_toString (TypeError m) = Inr (if m = [] then ''TypeError'' else ''TypeError: '' @ m)"
| "error_toString (Thrown r) = r"

text \<open>
  Truthiness of an optional string (\<^verbatim>\<open>if (s)\<close>, \<^verbatim>\<open>s ? a : b\<close>, \<^verbatim>\<open>!s\<close>): \<^verbatim>\<open>undefined\<close>
  and the empty string are both falsy.
\<close>

fun truthy :: "string option \<Rightarrow> bool" where
  "truthy None = False"
| "truthy (Some s) = (s \<noteq> [])"

subsection \<open>The cache class\<close>

text \<open>
  \<^verbatim>\<open>class Cache<A>\<close> holds a \<^verbatim>\<open>Map<string, A>\<close>. The callback \<open>calcFn\<close> runs in some
  world \<open>'w\<close> (file system, counters, ...), may change it and may throw.
  \<^verbatim>\<open>obtain\<close> tests the looked-up value for truthiness (\<^verbatim>\<open>if (old)\<close>), so the class is
  modelled with the truthiness test of its value type as a parameter. (\<open>obtain\<close> and
  \<open>clear\<close> are the methods; the constants carry the class name as a prefix.)
\<close>

type_synonym 'a Cache = "string \<rightharpoonup> 'a"

definition Cache_clear :: "'a Cache \<Rightarrow> 'a Cache" where
  "Cache_clear cache = Map.empty"

definition Cache_obtain ::
  "('a \<Rightarrow> bool) \<Rightarrow> 'a Cache \<Rightarrow> string \<Rightarrow> ('w \<Rightarrow> (error + 'a) \<times> 'w) \<Rightarrow> 'w
     \<Rightarrow> (error + 'a) \<times> 'a Cache \<times> 'w" where
  "Cache_obtain is_truthy cache cacheKey calcFn w =
     (case (case cache cacheKey of None \<Rightarrow> None
            | Some old \<Rightarrow> if is_truthy old then Some old else None) of
        Some old \<Rightarrow> (Inr old, cache, w)
      | None \<Rightarrow>
          (case calcFn w of
             (Inl e, w') \<Rightarrow> (Inl e, cache, w')
           | (Inr noo, w') \<Rightarrow> (Inr noo, cache(cacheKey \<mapsto> noo), w')))"

text \<open>A previously staged asset (\<^verbatim>\<open>interface StagedAsset\<close>).\<close>

record StagedAsset =
  stagedPath :: string
  assetHash :: string

text \<open>
  \<^verbatim>\<open>AssetStaging.assetCache = new Cache<StagedAsset>()\<close>: the values are objects, and
  every JavaScript object is truthy.
\<close>

definition assetCache_obtain ::
  "StagedAsset Cache \<Rightarrow> string \<Rightarrow> ('w \<Rightarrow> (error + StagedAsset) \<times> 'w) \<Rightarrow> 'w
     \<Rightarrow> (error + StagedAsset) \<times> StagedAsset Cache \<times> 'w" where
  "assetCache_obtain = Cache_obtain (\<lambda>_. True)"

subsection \<open>Hash types\<close>

datatype AssetHashType = SOURCE | CUSTOM | BUNDLE | OUTPUT

text \<open>
  \<^verbatim>\<open>determineHashType(assetHashType?, customSourceFingerprint?)\<close>. The enum is declared in
  \<^verbatim>\<open>./assets\<close>; the text of an enum member inside a template literal is the parameter
  \<open>enum_text\<close>.
\<close>

definition determineHashType ::
  "(AssetHashType \<Rightarrow> string) \<Rightarrow> AssetHashType option \<Rightarrow> string option \<Rightarrow> error + AssetHashType" where
  "determineHashType enum_text assetHashType customSourceFingerprint =
     (let hashType =
            (if truthy customSourceFingerprint
             then (case assetHashType of Some t \<Rightarrow> t | None \<Rightarrow> CUSTOM)
             else (case assetHashType of Some t \<Rightarrow> t | None \<Rightarrow> SOURCE))
      in if truthy customSourceFingerprint \<and> hashType \<noteq> CUSTOM then
           Inl (Error (''Cannot specify `''
                       @ (case assetHashType of Some t \<Rightarrow> enum_text t | None \<Rightarrow> ''undefined'')
                       @ ''` for `assetHashType` when `assetHash` is specified. Use `CUSTOM` or leave `undefined`.''))
         else if hashType = CUSTOM \<and> \<not> truthy customSourceFingerprint then
           Inl (Error ''`assetHash` must be specified when `assetHashType` is set to `AssetHashType.CUSTOM`.'')
         else Inr hashType)"

subsection \<open>Configuration values and the canonical cache key\<close>




text \<open>
  Decimal numerals. A property key is an array index when it is the canonical numeral
  of a number below \<open>2^32 - 1\<close>; such keys are enumerated first, in numeric order, and all
  other keys follow in the order of their creation.
\<close>

fun nat_text :: "nat \<Rightarrow> string" where
  "nat_text n =
     (if n < 10 then [char_of (48 + n)] else nat_text (n div 10) @ [char_of (48 + n mod 10)])"

definition int_text :: "int \<Rightarrow> string" where
  "int_text i = (if i < 0 then ''-'' @ nat_text (nat (- i)) else nat_text (nat i))"














subsection \<open>The file system and the world\<close>

text \<open>
  The file system is a table from absolute path to entry. A path \<open>p\<close> lies beneath the
  directory \<open>d\<close> when it starts with \<open>d\<close> followed by a slash. The world is the file system
  together with the trace of the mutating calls and external executions performed so far,
  oldest first. Failures of the operating system other than a missing or occupied path
  (permissions, full disks) are not part of the model.
\<close>

datatype node = File string | Directory | Other

type_synonym FS = "(string \<times> node) list"

record DockerVolume =
  hostPath :: string
  containerPath :: string

record DockerRunOptions =
  run_command :: "string list option"
  run_user :: string
  run_volumes :: "DockerVolume list"
  run_environment :: "(string \<times> string) list option"
  run_workingDirectory :: string

datatype event =
    RemoveSync string
  | RenameSync string string
  | CopyFileSync string string
  | MkdirSync string
  | EnsureDirSync string
  | ChmodSync string nat
  | CopyDirectory string string
  | StderrWrite string
  | TryBundle string
  | ImageRun DockerRunOptions

record World =
  files :: FS
  trace :: "event list"

definition existsSync :: "FS \<Rightarrow> string \<Rightarrow> bool" where
  "existsSync fs p = (map_of fs p \<noteq> None)"

definition beneath :: "string \<Rightarrow> string \<Rightarrow> bool" where
  "beneath d p = (take (Suc (length d)) p = d @ ''/'')"

definition within :: "string \<Rightarrow> string \<Rightarrow> bool" where
  "within d p = (p = d \<or> beneath d p)"

text \<open>The messages of the file-system errors put paths between single quotes.\<close>

definition quoted :: "string \<Rightarrow> string" where
  "quoted p = [CHR 0x27] @ p @ [CHR 0x27]"

text \<open>\<^verbatim>\<open>fs.removeSync\<close> (fs-extra): removes the entry and all beneath it; a missing path is no error.\<close>

definition removeSync :: "string \<Rightarrow> World \<Rightarrow> World" where
  "removeSync p w =
     w\<lparr>files := filter (\<lambda>e. \<not> within p (fst e)) (files w), trace := trace w @ [RemoveSync p]\<rparr>"

text \<open>
  \<^verbatim>\<open>fs.renameSync\<close>: fails when the source is missing, when the target lies inside the source,
  and when the target is a directory that is not empty; renaming a path to itself changes
  nothing. Otherwise the source and all beneath it move to the target.
\<close>

definition moved :: "string \<Rightarrow> string \<Rightarrow> string \<times> node \<Rightarrow> string \<times> node" where
  "moved src tgt e = (if within src (fst e) then (tgt @ drop (length src) (fst e), snd e) else e)"

definition renameSync :: "string \<Rightarrow> string \<Rightarrow> World \<Rightarrow> (error + unit) \<times> World" where
  "renameSync src tgt w =
     (let w' = w\<lparr>trace := trace w @ [RenameSync src tgt]\<rparr> in
      if \<not> existsSync (files w) src then
        (Inl (Error (''ENOENT: no such file or directory, rename '' @ quoted src @ '' -> '' @ quoted tgt)), w')
      else if src = tgt then (Inr (), w')
      else if beneath src tgt then
        (Inl (Error (''EINVAL: invalid argument, rename '' @ quoted src @ '' -> '' @ quoted tgt)), w')
      else if map_of (files w) tgt = Some Directory
              \<and> list_ex (\<lambda>e. beneath tgt (fst e)) (files w) then
        (Inl (Error (''ENOTEMPTY: directory not empty, rename '' @ quoted src @ '' -> '' @ quoted tgt)), w')
      else
        (Inr (), w'\<lparr>files := map (moved src tgt) (filter (\<lambda>e. fst e \<noteq> tgt) (files w))\<rparr>))"

definition statSync :: "FS \<Rightarrow> string \<Rightarrow> error + node" where
  "statSync fs p =
     (case map_of fs p of
        None \<Rightarrow> Inl (Error (''ENOENT: no such file or directory, stat '' @ quoted p))
      | Some n \<Rightarrow> Inr n)"

fun isFile :: "node \<Rightarrow> bool" where
  "isFile (File c) = True"
| "isFile n = False"

fun isDirectory :: "node \<Rightarrow> bool" where
  "isDirectory Directory = True"
| "isDirectory n = False"

definition copyFileSync :: "string \<Rightarrow> string \<Rightarrow> World \<Rightarrow> (error + unit) \<times> World" where
  "copyFileSync src tgt w =
     (let w' = w\<lparr>trace := trace w @ [CopyFileSync src tgt]\<rparr> in
      case map_of (files w) src of
        Some (File c) \<Rightarrow>
          (Inr (), w'\<lparr>files := filter (\<lambda>e. fst e \<noteq> tgt) (files w) @ [(tgt, File c)]\<rparr>)
      | Some n \<Rightarrow> (Inl (Error (''EISDIR: illegal operation on a directory, copyfile '' @ quoted src
                           @ '' -> '' @ quoted tgt)), w')
      | None \<Rightarrow> (Inl (Error (''ENOENT: no such file or directory, copyfile '' @ quoted src
                         @ '' -> '' @ quoted tgt)), w'))"

definition mkdirSync :: "string \<Rightarrow> World \<Rightarrow> (error + unit) \<times> World" where
  "mkdirSync p w =
     (let w' = w\<lparr>trace := trace w @ [MkdirSync p]\<rparr> in
      if existsSync (files w) p then
        (Inl (Error (''EEXIST: file already exists, mkdir '' @ quoted p)), w')
      else (Inr (), w'\<lparr>files := files w @ [(p, Directory)]\<rparr>))"

text \<open>\<^verbatim>\<open>fs.ensureDirSync\<close> (fs-extra): creates the directory unless the path exists.\<close>

definition ensureDirSync :: "string \<Rightarrow> World \<Rightarrow> World" where
  "ensureDirSync p w =
     w\<lparr>files := (if existsSync (files w) p then files w else files w @ [(p, Directory)]),
       trace := trace w @ [EnsureDirSync p]\<rparr>"

text \<open>Permissions are not part of the file table: \<^verbatim>\<open>fs.chmodSync\<close> only shows in the trace.\<close>

definition chmodSync :: "string \<Rightarrow> nat \<Rightarrow> World \<Rightarrow> World" where
  "chmodSync p mode w = w\<lparr>trace := trace w @ [ChmodSync p mode]\<rparr>"

definition stderr_write :: "string \<Rightarrow> World \<Rightarrow> World" where
  "stderr_write text w = w\<lparr>trace := trace w @ [StderrWrite text]\<rparr>"

text \<open>
  Modelled from the spec: \<^verbatim>\<open>FileSystem.isEmpty\<close> is declared in \<^verbatim>\<open>./fs\<close>, which is not
  among the sources; the specification gives it as \<^verbatim>\<open>IsEmpty(directory) -> bool\<close>. A
  directory is empty when no path lies beneath it.
\<close>

definition isEmpty :: "FS \<Rightarrow> string \<Rightarrow> bool" where
  "isEmpty fs d = (\<not> list_ex (\<lambda>e. beneath d (fst e)) fs)"

subsection \<open>Options, collaborators and the staging object\<close>

text \<open>
  \<^verbatim>\<open>FingerprintOptions\<close> and \<^verbatim>\<open>BundlingOptions\<close> are declared outside this file; the
  records hold the fields this file reads. \<^verbatim>\<open>options.local?.tryBundle(bundleDir, options)\<close>
  and \<^verbatim>\<open>options.image.run(...)\<close> are arbitrary external code: functions on the file
  system that may throw.
\<close>

record FingerprintOptions =
  exclude :: "string list option"
  extraHash :: "string option"

record BundlingOptions =
  user :: "string option"
  volumes :: "DockerVolume list option"
  command :: "string list option"
  environment :: "(string \<times> string) list option"
  workingDirectory :: "string option"
  local_tryBundle :: "(string \<Rightarrow> FS \<Rightarrow> (error + bool) \<times> FS) option"
  image_run :: "DockerRunOptions \<Rightarrow> FS \<Rightarrow> (error + unit) \<times> FS"

text \<open>
  The functions this file calls and does not define: the \<^verbatim>\<open>crypto\<close>, \<^verbatim>\<open>path\<close> and \<^verbatim>\<open>os\<close>
  modules of the runtime, \<^verbatim>\<open>FileSystem.fingerprint\<close> and \<^verbatim>\<open>FileSystem.copyDirectory\<close> of
  \<^verbatim>\<open>./fs\<close>, the text of an enum member and \<^verbatim>\<open>JSON.stringify\<close> of the bundling options
  (which goes through the \<^verbatim>\<open>toJSON\<close> of the image). \<open>sha256\<close> is the hexadecimal digest of
  all the text given to \<^verbatim>\<open>hash.update\<close>, in order.
\<close>

record env =
  sha256 :: "string \<Rightarrow> string"
  fingerprint :: "FS \<Rightarrow> string \<Rightarrow> FingerprintOptions \<Rightarrow> error + string"
  copyDirectory :: "string \<Rightarrow> string \<Rightarrow> FingerprintOptions \<Rightarrow> FS \<Rightarrow> (error + unit) \<times> FS"
  path_resolve :: "string \<Rightarrow> string \<Rightarrow> string"
  path_extname :: "string \<Rightarrow> string"
  hashType_text :: "AssetHashType \<Rightarrow> string"
  bundling_json :: "BundlingOptions \<Rightarrow> string"
  userInfo_uid :: int
  userInfo_gid :: int

text \<open>The private fields of an \<^verbatim>\<open>AssetStaging\<close> object; \<open>node_path\<close> is \<^verbatim>\<open>this.node.path\<close>.\<close>

record AssetStaging =
  sourcePath :: string
  fingerprintOptions :: FingerprintOptions
  hashType :: AssetHashType
  outdir :: string
  customSourceFingerprint :: "string option"
  cacheKey :: string
  node_path :: string

definition BUNDLING_INPUT_DIR :: string where
  "BUNDLING_INPUT_DIR = ''/asset-input''"

definition BUNDLING_OUTPUT_DIR :: string where
  "BUNDLING_OUTPUT_DIR = ''/asset-output''"

definition renderAssetFilename :: "string \<Rightarrow> string \<Rightarrow> string" where
  "renderAssetFilename hash extension = ''asset.'' @ hash @ extension"

subsection \<open>Hash calculation\<close>

text \<open>
  \<^verbatim>\<open>calculateHash(hashType, bundling?, outputDir?)\<close>. The seed is
  \<^verbatim>\<open>this.customSourceFingerprint ?? FileSystem.fingerprint(...)\<close>: only \<^verbatim>\<open>undefined\<close> falls
  through to the fingerprint. \<^verbatim>\<open>!outputDir\<close> holds of \<^verbatim>\<open>undefined\<close> and of the empty
  string. After the first test the \<^verbatim>\<open>switch\<close> cannot see \<^verbatim>\<open>CUSTOM\<close>; its \<^verbatim>\<open>default\<close>
  branch is the last case.
\<close>

definition calculateHash ::
  "env \<Rightarrow> AssetStaging \<Rightarrow> FS \<Rightarrow> AssetHashType \<Rightarrow> BundlingOptions option \<Rightarrow> string option
     \<Rightarrow> error + string" where
  "calculateHash E this fs hashType' bundling outputDir =
     (if hashType' = CUSTOM \<or> (hashType' = SOURCE \<and> bundling \<noteq> None) then
        (case (case customSourceFingerprint this of
                 Some seed \<Rightarrow> Inr seed
               | None \<Rightarrow> fingerprint E fs (sourcePath this) (fingerprintOptions this)) of
           Inl e \<Rightarrow> Inl e
         | Inr seed \<Rightarrow>
             Inr (sha256 E (seed @ (case bundling of Some b \<Rightarrow> bundling_json E b | None \<Rightarrow> []))))
      else
        (case hashType' of
           SOURCE \<Rightarrow> fingerprint E fs (sourcePath this) (fingerprintOptions this)
         | BUNDLE \<Rightarrow>
             (case outputDir of
                Some dir \<Rightarrow>
                  if dir \<noteq> [] then fingerprint E fs dir (fingerprintOptions this)
                  else Inl (Error (''Cannot use `'' @ hashType_text E hashType'
                                   @ ''` hash type when `bundling` is not specified.''))
              | None \<Rightarrow>
                  Inl (Error (''Cannot use `'' @ hashType_text E hashType'
                              @ ''` hash type when `bundling` is not specified.'')))
         | OUTPUT \<Rightarrow>
             (case outputDir of
                Some dir \<Rightarrow>
                  if dir \<noteq> [] then fingerprint E fs dir (fingerprintOptions this)
                  else Inl (Error (''Cannot use `'' @ hashType_text E hashType'
                                   @ ''` hash type when `bundling` is not specified.''))
              | None \<Rightarrow>
                  Inl (Error (''Cannot use `'' @ hashType_text E hashType'
                              @ ''` hash type when `bundling` is not specified.'')))
         | CUSTOM \<Rightarrow> Inl (Error ''Unknown asset hash type.'')))"

subsection \<open>Placement\<close>

datatype style = Move | Copy

text \<open>
  \<^verbatim>\<open>stageAsset(sourcePath, targetPath, style)\<close>; the parameters are named \<open>source\<close> and
  \<open>target\<close> here, \<open>sourcePath\<close> being the field of the object.
\<close>

definition stageAsset ::
  "env \<Rightarrow> AssetStaging \<Rightarrow> string \<Rightarrow> string \<Rightarrow> style \<Rightarrow> World \<Rightarrow> (error + unit) \<times> World" where
  "stageAsset E this source target style' w =
     (let isAlreadyStaged = existsSync (files w) target in
      if isAlreadyStaged then
        (if style' = Move \<and> source \<noteq> target then (Inr (), removeSync source w)
         else (Inr (), w))
      else if style' = Move then renameSync source target w
      else
        (case statSync (files w) source of
           Inl e \<Rightarrow> (Inl e, w)
         | Inr stat \<Rightarrow>
             if isFile stat then copyFileSync source target w
             else if isDirectory stat then
               (case mkdirSync target w of
                  (Inl e, w1) \<Rightarrow> (Inl e, w1)
                | (Inr u, w1) \<Rightarrow>
                    (case copyDirectory E source target (fingerprintOptions this) (files w1) of
                       (r, fs2) \<Rightarrow>
                         (r, w1\<lparr>files := fs2, trace := trace w1 @ [CopyDirectory source target]\<rparr>)))
             else (Inl (Error (''Unknown file type: '' @ source)), w)))"

text \<open>
  \<^verbatim>\<open>determineBundleDir(outdir, sourceHash?)\<close>; \<^verbatim>\<open>if (sourceHash)\<close> is the truthiness test:
  \<^verbatim>\<open>undefined\<close> and the empty string both take the second branch.
\<close>

definition determineBundleDir :: "env \<Rightarrow> AssetStaging \<Rightarrow> string \<Rightarrow> string option \<Rightarrow> string" where
  "determineBundleDir E this outdir' sourceHash =
     (case sourceHash of
        Some hash \<Rightarrow>
          if hash \<noteq> [] then path_resolve E outdir' (renderAssetFilename hash [])
          else path_resolve E outdir' (''bundling-temp-'' @ cacheKey this)
      | None \<Rightarrow> path_resolve E outdir' (''bundling-temp-'' @ cacheKey this))"

subsection \<open>Bundling\<close>

text \<open>
  The body of the \<^verbatim>\<open>try\<close> block of \<^verbatim>\<open>bundle\<close>: the message on standard error, the local
  bundler if there is one, and the image when the local bundler did not do the work.
  The result is \<^verbatim>\<open>localBundling\<close> (\<open>None\<close> for \<^verbatim>\<open>undefined\<close>). The local bundler is a
  function of the bundle directory; the options it also receives are its own record.
\<close>

definition try_bundling ::
  "AssetStaging \<Rightarrow> BundlingOptions \<Rightarrow> string \<Rightarrow> DockerRunOptions \<Rightarrow> World
     \<Rightarrow> (error + bool option) \<times> World" where
  "try_bundling this options bundleDir run_options w =
     (let w1 = stderr_write (''Bundling asset '' @ node_path this @ ''...'' @ [CHR 0x0A]) w in
      case (case local_tryBundle options of
              None \<Rightarrow> (Inr None, w1)
            | Some tryBundle \<Rightarrow>
                (case tryBundle bundleDir (files w1) of
                   (r, fs2) \<Rightarrow>
                     (map_sum id Some r,
                      w1\<lparr>files := fs2, trace := trace w1 @ [TryBundle bundleDir]\<rparr>))) of
        (Inl e, w2) \<Rightarrow> (Inl e, w2)
      | (Inr localBundling, w2) \<Rightarrow>
          if localBundling \<noteq> Some True then
            (case image_run options run_options (files w2) of
               (r, fs3) \<Rightarrow>
                 (map_sum id (\<lambda>u. localBundling) r,
                  w2\<lparr>files := fs3, trace := trace w2 @ [ImageRun run_options]\<rparr>))
          else (Inr localBundling, w2))"

text \<open>
  The \<^verbatim>\<open>catch\<close> block of \<^verbatim>\<open>bundle\<close>; it always ends by throwing. The message is built
  after the renaming, and building it converts the caught value to a string.
\<close>

definition bundle_failed ::
  "AssetStaging \<Rightarrow> string \<Rightarrow> error \<Rightarrow> World \<Rightarrow> (error + unit) \<times> World" where
  "bundle_failed this bundleDir err w =
     (let bundleErrorDir = bundleDir @ ''-error'';
          w1 = (if existsSync (files w) bundleErrorDir then removeSync bundleErrorDir w else w)
      in case renameSync bundleDir bundleErrorDir w1 of
           (Inl e, w2) \<Rightarrow> (Inl e, w2)
         | (Inr u, w2) \<Rightarrow>
             (case error_toString err of
                Inl e \<Rightarrow> (Inl e, w2)
              | Inr err_text \<Rightarrow>
                  (Inl (Error (''Failed to bundle asset '' @ node_path this
                               @ '', bundle output is located at '' @ bundleErrorDir
                               @ '': '' @ err_text)), w2)))"

text \<open>
  \<^verbatim>\<open>bundle(options, bundleDir)\<close>. The user and the options given to the image are the
  two definitions below; \<^verbatim>\<open>if (options.user)\<close> is the truthiness test, and the mode
  \<^verbatim>\<open>0o777\<close> is \<open>511\<close>.
\<close>

definition bundle_user :: "env \<Rightarrow> BundlingOptions \<Rightarrow> string" where
  "bundle_user E options =
     (let current =
            (if userInfo_uid E \<noteq> - 1
             then int_text (userInfo_uid E) @ '':'' @ int_text (userInfo_gid E)
             else ''1000:1000'')
      in case user options of
           Some u \<Rightarrow> if u \<noteq> [] then u else current
         | None \<Rightarrow> current)"

definition bundle_run_options ::
  "env \<Rightarrow> AssetStaging \<Rightarrow> BundlingOptions \<Rightarrow> string \<Rightarrow> DockerRunOptions" where
  "bundle_run_options E this options bundleDir =
     \<lparr>run_command = command options,
      run_user = bundle_user E options,
      run_volumes =
        [\<lparr>hostPath = sourcePath this, containerPath = BUNDLING_INPUT_DIR\<rparr>,
         \<lparr>hostPath = bundleDir, containerPath = BUNDLING_OUTPUT_DIR\<rparr>]
        @ (case volumes options of Some vs \<Rightarrow> vs | None \<Rightarrow> []),
      run_environment = environment options,
      run_workingDirectory =
        (case workingDirectory options of Some d \<Rightarrow> d | None \<Rightarrow> BUNDLING_INPUT_DIR)\<rparr>"

definition bundle_asset ::
  "env \<Rightarrow> AssetStaging \<Rightarrow> BundlingOptions \<Rightarrow> string \<Rightarrow> World \<Rightarrow> (error + unit) \<times> World" where
  "bundle_asset E this options bundleDir w =
     (if existsSync (files w) bundleDir then (Inr (), w)
      else
        (let w1 = chmodSync bundleDir 511 (ensureDirSync bundleDir w) in
         case try_bundling this options bundleDir
                (bundle_run_options E this options bundleDir) w1 of
           (Inl err, w2) \<Rightarrow> bundle_failed this bundleDir err w2
         | (Inr localBundling, w2) \<Rightarrow>
             if isEmpty (files w2) bundleDir then
               (let outputDir = (if localBundling = Some True then bundleDir else BUNDLING_OUTPUT_DIR)
                in (Inl (Error (''Bundling did not produce any output. ''
                                @ ''Check that content is written to '' @ outputDir @ ''.'')), w2))
             else (Inr (), w2)))"



subsection \<open>Staging\<close>

definition stageByCopying ::
  "env \<Rightarrow> AssetStaging \<Rightarrow> bool \<Rightarrow> World \<Rightarrow> (error + StagedAsset) \<times> World" where
  "stageByCopying E this skip w =
     (case calculateHash E this (files w) (hashType this) None None of
        Inl e \<Rightarrow> (Inl e, w)
      | Inr assetHash' \<Rightarrow>
          (let stagedPath' =
                 (if skip then sourcePath this
                  else path_resolve E (outdir this)
                         (renderAssetFilename assetHash' (path_extname E (sourcePath this))))
           in case stageAsset E this (sourcePath this) stagedPath' Copy w of
                (Inl e, w1) \<Rightarrow> (Inl e, w1)
              | (Inr u, w1) \<Rightarrow> (Inr \<lparr>stagedPath = stagedPath', assetHash = assetHash'\<rparr>, w1)))"

definition stageByBundling ::
  "env \<Rightarrow> AssetStaging \<Rightarrow> BundlingOptions \<Rightarrow> bool \<Rightarrow> World \<Rightarrow> (error + StagedAsset) \<times> World" where
  "stageByBundling E this bundling skip w =
     (if skip then
        (case calculateHash E this (files w) SOURCE None None of
           Inl e \<Rightarrow> (Inl e, w)
         | Inr h \<Rightarrow> (Inr \<lparr>stagedPath = sourcePath this, assetHash = h\<rparr>, w))
      else
        (case (if hashType this = SOURCE \<or> hashType this = CUSTOM
               then map_sum id Some (calculateHash E this (files w) (hashType this) (Some bundling) None)
               else Inr None) of
           Inl e \<Rightarrow> (Inl e, w)
         | Inr early \<Rightarrow>
             (let bundleDir = determineBundleDir E this (outdir this) early in
              case bundle_asset E this bundling bundleDir w of
                (Inl e, w1) \<Rightarrow> (Inl e, w1)
              | (Inr u, w1) \<Rightarrow>
                  (case (case early of
                           Some h \<Rightarrow> Inr h
                         | None \<Rightarrow>
                             calculateHash E this (files w1) (hashType this) (Some bundling)
                               (Some bundleDir)) of
                     Inl e \<Rightarrow> (Inl e, w1)
                   | Inr assetHash' \<Rightarrow>
                       (let stagedPath' =
                              path_resolve E (outdir this) (renderAssetFilename assetHash' [])
                        in case stageAsset E this bundleDir stagedPath' Move w1 of
                             (Inl e, w2) \<Rightarrow> (Inl e, w2)
                           | (Inr u, w2) \<Rightarrow>
                               (Inr \<lparr>stagedPath = stagedPath', assetHash = assetHash'\<rparr>, w2))))))"

subsection \<open>Equality of configuration values up to the order of keys\<close>






subsection \<open>Example values\<close>

text \<open>
  Stand-ins for the collaborators, and a small world, on which the functions can be run:
  the digest and the fingerprint only label their input.
\<close>

definition example_env :: env where
  "example_env =
     \<lparr>sha256 = (\<lambda>text. ''sha256:'' @ text),
      fingerprint =
        (\<lambda>fs p opts. if existsSync fs p then Inr (''fingerprint:'' @ p)
                     else Inl (Error (''ENOENT: no such file or directory, stat '' @ quoted p))),
      copyDirectory =
        (\<lambda>src tgt opts fs.
           (Inr (), fs @ map (\<lambda>e. (tgt @ drop (length src) (fst e), snd e))
                          (filter (\<lambda>e. beneath src (fst e)) fs))),
      path_resolve = (\<lambda>dir name. dir @ ''/'' @ name),
      path_extname = (\<lambda>p. []),
      hashType_text =
        (\<lambda>t. case t of SOURCE \<Rightarrow> ''source'' | CUSTOM \<Rightarrow> ''custom''
                      | BUNDLE \<Rightarrow> ''bundle'' | OUTPUT \<Rightarrow> ''output''),
      bundling_json = (\<lambda>b. ''{}''),
      userInfo_uid = 1000,
      userInfo_gid = 1000\<rparr>"

definition example_staging :: AssetStaging where
  "example_staging =
     \<lparr>sourcePath = ''/src/app'',
      fingerprintOptions = \<lparr>exclude = None, extraHash = None\<rparr>,
      hashType = SOURCE,
      outdir = ''/out'',
      customSourceFingerprint = None,
      cacheKey = ''k1'',
      node_path = ''Stack/Code''\<rparr>"

definition example_world :: World where
  "example_world =
     \<lparr>files = [(''/src/app'', Directory), (''/src/app/index.js'', File ''code''),
               (''/out'', Directory)],
      trace = []\<rparr>"



definition silent_bundling :: BundlingOptions where
  "silent_bundling =
     \<lparr>user = None, volumes = None, command = None, environment = None,
      workingDirectory = None,
      local_tryBundle = Some (\<lambda>dir fs. (Inr True, fs)),
      image_run = (\<lambda>ro fs. (Inr (), fs))\<rparr>"

definition working_bundling :: BundlingOptions where
  "working_bundling =
     \<lparr>user = None, volumes = None, command = None, environment = None,
      workingDirectory = None,
      local_tryBundle = Some (\<lambda>dir fs. (Inr True, fs @ [(dir @ ''/index.js'', File ''bundled'')])),
      image_run = (\<lambda>ro fs. (Inr (), fs))\<rparr>"

text \<open>A request with a caller-supplied hash, and a world where a staged directory exists.\<close>

definition custom_staging :: AssetStaging where
  "custom_staging = example_staging\<lparr>hashType := CUSTOM, customSourceFingerprint := Some ''v1''\<rparr>"

definition staged_world :: World where
  "staged_world =
     \<lparr>files = [(''/src/app'', Directory), (''/src/app/index.js'', File ''code''),
               (''/out'', Directory), (''/out/asset.abc'', Directory),
               (''/out/asset.abc/index.js'', File ''bundled'')],
      trace = []\<rparr>"

text \<open>The world after the working transformation has run for the example request.\<close>

definition bundled_world :: World where
  "bundled_world =
     \<lparr>files = [(''/src/app'', Directory), (''/src/app/index.js'', File ''code''),
               (''/out'', Directory),
               (''/out/asset.sha256:fingerprint:/src/app{}'', Directory),
               (''/out/asset.sha256:fingerprint:/src/app{}/index.js'', File ''bundled'')],
      trace = [EnsureDirSync ''/out/asset.sha256:fingerprint:/src/app{}'',
               ChmodSync ''/out/asset.sha256:fingerprint:/src/app{}'' 511,
               StderrWrite (''Bundling asset Stack/Code...'' @ [CHR 0x0A]),
               TryBundle ''/out/asset.sha256:fingerprint:/src/app{}'']\<rparr>"

text \<open>A request whose hash is taken from the output of the transformation.\<close>

definition output_staging :: AssetStaging where
  "output_staging = example_staging\<lparr>hashType := OUTPUT\<rparr>"



text \<open>The world the silent transformation leaves for \<^verbatim>\<open>/out/bundling-temp-k1\<close>.\<close>

definition after_silent_run :: World where
  "after_silent_run =
     \<lparr>files = [(''/src/app'', Directory), (''/src/app/index.js'', File ''code''),
               (''/out'', Directory), (''/out/bundling-temp-k1'', Directory)],
      trace = [EnsureDirSync ''/out/bundling-temp-k1'',
               ChmodSync ''/out/bundling-temp-k1'' 511,
               StderrWrite (''Bundling asset Stack/Code...'' @ [CHR 0x0A]),
               TryBundle ''/out/bundling-temp-k1'']\<rparr>"





definition example_asset :: StagedAsset where
  "example_asset = \<lparr>stagedPath = ''/out/asset.abc'', assetHash = ''abc''\<rparr>"

section \<open>Properties\<close>

subsection \<open>The cache\<close>

text \<open>
  Claim C1. \<^verbatim>\<open>obtain\<close> on the asset cache: when the key is present the stored value is
  returned and the world is untouched, so the callback did not run; when the key is absent
  the world is the one a single run of the callback leaves, the result is stored under the
  key and returned, and a later call for that key returns it without running its callback;
  when the callback throws, the error is passed on and the cache is the
  one before the call, so the key is still absent and a later call on that cache runs its
  callback again.
\<close>

theorem obtain_memoizes:
  "(cache key = Some v \<longrightarrow> assetCache_obtain cache key calcFn w = (Inr v, cache, w))
   \<and> (cache key = None \<longrightarrow> calcFn w = (Inr v, w') \<longrightarrow>
        assetCache_obtain cache key calcFn w = (Inr v, cache(key \<mapsto> v), w')
        \<and> assetCache_obtain (cache(key \<mapsto> v)) key other w'' = (Inr v, cache(key \<mapsto> v), w''))
   \<and> (cache key = None \<longrightarrow> calcFn w = (Inl e, w') \<longrightarrow>
        assetCache_obtain cache key calcFn w = (Inl e, cache, w')
        \<and> (retry w' = (r, w'') \<longrightarrow>
             assetCache_obtain cache key retry w'
               = (r, (case r of Inl e2 \<Rightarrow> cache | Inr v2 \<Rightarrow> cache(key \<mapsto> v2)), w'')))"
  by (simp add: assetCache_obtain_def Cache_obtain_def split: sum.split)

text \<open>
  Witness for C1, with a world that counts the runs of the callback: a hit leaves the
  count at 0, a miss makes it 1, and after a throwing callback the retry runs.
\<close>

theorem obtain_memoizes_witness:
  "assetCache_obtain [''k1'' \<mapsto> example_asset] ''k1'' (\<lambda>n::nat. (Inr example_asset, Suc n)) 0
     = (Inr example_asset, [''k1'' \<mapsto> example_asset], 0)
   \<and> assetCache_obtain Map.empty ''k1'' (\<lambda>n::nat. (Inr example_asset, Suc n)) 0
     = (Inr example_asset, [''k1'' \<mapsto> example_asset], Suc 0)
   \<and> assetCache_obtain Map.empty ''k1'' (\<lambda>n::nat. (Inl (Error ''disk full''), Suc n)) 0
     = (Inl (Error ''disk full''), Map.empty, Suc 0)
   \<and> assetCache_obtain Map.empty ''k1'' (\<lambda>n::nat. (Inr example_asset, Suc n)) (Suc 0)
     = (Inr example_asset, [''k1'' \<mapsto> example_asset], Suc (Suc 0))"
proof -
  have present: "[''k1'' \<mapsto> example_asset] ''k1'' = Some example_asset" by simp
  have absent: "(Map.empty :: StagedAsset Cache) ''k1'' = None" by simp
  have computes: "(\<lambda>n::nat. (Inr example_asset, Suc n)) 0 = (Inr example_asset, Suc 0)" by simp
  have throws: "(\<lambda>n::nat. (Inl (Error ''disk full''), Suc n)) 0 = (Inl (Error ''disk full''), Suc 0)"
    by simp
  have again: "(\<lambda>n::nat. (Inr example_asset, Suc n)) (Suc 0) = (Inr example_asset, Suc (Suc 0))"
    by simp
  note hit = obtain_memoizes
    [where cache = "[''k1'' \<mapsto> example_asset]" and key = "''k1''" and v = example_asset
       and calcFn = "\<lambda>n::nat. (Inr example_asset, Suc n)" and w = 0,
     THEN conjunct1, rule_format, OF present]
  note miss = obtain_memoizes
    [where cache = Map.empty and key = "''k1''" and v = example_asset
       and calcFn = "\<lambda>n::nat. (Inr example_asset, Suc n)" and w = 0 and w' = "Suc 0",
     THEN conjunct2, THEN conjunct1, rule_format, OF absent computes, THEN conjunct1]
  note fail = obtain_memoizes
    [where cache = Map.empty and key = "''k1''"
       and calcFn = "\<lambda>n::nat. (Inl (Error ''disk full''), Suc n)" and w = 0 and w' = "Suc 0"
       and e = "Error ''disk full''" and retry = "\<lambda>n::nat. (Inr example_asset, Suc n)"
       and r = "Inr example_asset" and w'' = "Suc (Suc 0)",
     THEN conjunct2, THEN conjunct2, rule_format, OF absent throws]
  from fail have failed: "assetCache_obtain Map.empty ''k1'' (\<lambda>n::nat. (Inl (Error ''disk full''), Suc n)) 0
     = (Inl (Error ''disk full''), Map.empty, Suc 0)" by (rule conjunct1)
  from fail again have retried:
    "assetCache_obtain Map.empty ''k1'' (\<lambda>n::nat. (Inr example_asset, Suc n)) (Suc 0)
       = (Inr example_asset, [''k1'' \<mapsto> example_asset], Suc (Suc 0))"
    by simp
  from hit miss failed retried show ?thesis by (intro conjI)
qed

subsection \<open>Resolution of the hash type\<close>

text \<open>
  Claim C3, as stated, at the empty seed: the seed \<^verbatim>\<open>''\<close> is supplied together with the
  explicit type \<^verbatim>\<open>SOURCE\<close>, and the resolution does not fail.
\<close>

theorem determineHashType_empty_seed:
  "Some [] \<noteq> (None :: string option) \<and> Some SOURCE \<noteq> Some CUSTOM
   \<and> determineHashType (hashType_text example_env) (Some SOURCE) (Some []) = Inr SOURCE"
  by (simp add: determineHashType_def)

text \<open>
  Claim C3, amended. The resolution fails exactly when a non-empty seed comes with an
  explicit type other than \<^verbatim>\<open>CUSTOM\<close>, or \<^verbatim>\<open>CUSTOM\<close> is requested without a non-empty
  seed; with no explicit type it yields \<^verbatim>\<open>CUSTOM\<close> for a non-empty seed and \<^verbatim>\<open>SOURCE\<close>
  otherwise; and when it does not fail on an explicit type, it yields that type.
\<close>

theorem determineHashType_resolution:
  "(isl (determineHashType txt explicit seed) \<longleftrightarrow>
      (truthy seed \<and> explicit \<noteq> None \<and> explicit \<noteq> Some CUSTOM)
      \<or> (explicit = Some CUSTOM \<and> \<not> truthy seed))
   \<and> determineHashType txt None seed = Inr (if truthy seed then CUSTOM else SOURCE)
   \<and> (\<not> isl (determineHashType txt (Some t) seed) \<longrightarrow>
        determineHashType txt (Some t) seed = Inr t)"
  by (cases explicit) (auto simp: determineHashType_def Let_def)

text \<open>
  Witness for C3: both failures, both defaults, and an explicit type passed through.
\<close>

theorem determineHashType_resolution_witness:
  "isl (determineHashType (hashType_text example_env) (Some SOURCE) (Some ''v1''))
   \<and> isl (determineHashType (hashType_text example_env) (Some CUSTOM) None)
   \<and> determineHashType (hashType_text example_env) None (Some ''v1'') = Inr CUSTOM
   \<and> determineHashType (hashType_text example_env) None None = Inr SOURCE
   \<and> determineHashType (hashType_text example_env) (Some BUNDLE) None = Inr BUNDLE"
  using
    determineHashType_resolution [of "hashType_text example_env" "Some SOURCE" "Some ''v1''"]
    determineHashType_resolution [of "hashType_text example_env" "Some CUSTOM" None]
    determineHashType_resolution [of "hashType_text example_env" None "Some ''v1''"]
    determineHashType_resolution [of "hashType_text example_env" None None]
    determineHashType_resolution [of "hashType_text example_env" "Some BUNDLE" None BUNDLE]
  by simp

subsection \<open>Hash calculation\<close>

lemma calculateHash_source_plain:
  "calculateHash E this fs SOURCE None outputDir = fingerprint E fs (sourcePath this) (fingerprintOptions this)"
  by (simp add: calculateHash_def)

lemma calculateHash_before_bundling:
  assumes "t = SOURCE \<or> t = CUSTOM"
  shows "calculateHash E this fs t (Some bundling) outputDir
           = (case (case customSourceFingerprint this of
                      Some seed \<Rightarrow> Inr seed
                    | None \<Rightarrow> fingerprint E fs (sourcePath this) (fingerprintOptions this)) of
                Inl e \<Rightarrow> Inl e
              | Inr seed \<Rightarrow> Inr (sha256 E (seed @ bundling_json E bundling)))"
  using assms by (auto simp: calculateHash_def split: sum.split option.split)

text \<open>
  Claim C4. For the hash types \<^verbatim>\<open>BUNDLE\<close> and \<^verbatim>\<open>OUTPUT\<close>, \<^verbatim>\<open>calculateHash\<close> without an
  output directory (\<^verbatim>\<open>undefined\<close>, or the empty string, which is no path) fails with the
  error that names the hash type, and with an output directory its result is the
  fingerprint of that directory under the fingerprint options of the request.
\<close>

theorem calculateHash_of_output:
  assumes "t = BUNDLE \<or> t = OUTPUT"
  shows "calculateHash E this fs t bundling None
           = Inl (Error (''Cannot use `'' @ hashType_text E t
                         @ ''` hash type when `bundling` is not specified.''))
         \<and> calculateHash E this fs t bundling (Some [])
             = Inl (Error (''Cannot use `'' @ hashType_text E t
                           @ ''` hash type when `bundling` is not specified.''))
         \<and> (d \<noteq> [] \<longrightarrow>
              calculateHash E this fs t bundling (Some d) = fingerprint E fs d (fingerprintOptions this))"
  using assms by (auto simp: calculateHash_def)

text \<open>
  Witness for C4 on the example request.
\<close>

theorem calculateHash_of_output_witness:
  "calculateHash example_env example_staging (files example_world) BUNDLE None None
     = Inl (Error ''Cannot use `bundle` hash type when `bundling` is not specified.'')
   \<and> calculateHash example_env example_staging (files example_world) OUTPUT
        (Some working_bundling) (Some ''/src/app'') = Inr ''fingerprint:/src/app''"
  using
    calculateHash_of_output [of BUNDLE example_env example_staging "files example_world" None "''/src/app''"]
    calculateHash_of_output [of OUTPUT example_env example_staging "files example_world"
      "Some working_bundling" "''/src/app''"]
  by (simp add: example_env_def example_staging_def example_world_def existsSync_def)

subsection \<open>The file system\<close>


lemma map_of_filter_key:
  "map_of (filter (\<lambda>e. P (fst e)) fs) p = (if P p then map_of fs p else None)"
  by (induction fs) auto

lemma removeSync_files:
  "map_of (files (removeSync s w)) p = (if within s p then None else map_of (files w) p)"
  using map_of_filter_key [of "\<lambda>q. \<not> within s q" "files w" p] by (simp add: removeSync_def)

lemma removeSync_trace: "trace (removeSync s w) = trace w @ [RemoveSync s]"
  by (simp add: removeSync_def)

subsection \<open>Placement onto an existing target\<close>

lemma stageAsset_exists_copy:
  "existsSync (files w) target \<Longrightarrow> stageAsset E this source target Copy w = (Inr (), w)"
  by (simp add: stageAsset_def)

lemma stageAsset_onto_itself:
  "existsSync (files w) p \<Longrightarrow> stageAsset E this p p style' w = (Inr (), w)"
  by (simp add: stageAsset_def)

text \<open>
  Claim C2, as stated, at a move whose source is its target: the target exists, the call
  returns without error, and the source directory is still there afterwards.
\<close>

theorem stageAsset_same_path_keeps_source:
  "existsSync (files staged_world) ''/out/asset.abc''
   \<and> fst (stageAsset example_env example_staging ''/out/asset.abc'' ''/out/asset.abc'' Move staged_world)
       = Inr ()
   \<and> existsSync
        (files (snd (stageAsset example_env example_staging ''/out/asset.abc'' ''/out/asset.abc'' Move
                       staged_world)))
        ''/out/asset.abc''"
  by (simp add: stageAsset_def staged_world_def existsSync_def)

text \<open>
  Claim C2, amended. When the target exists, \<^verbatim>\<open>stageAsset\<close> returns without error. For
  the style \<^verbatim>\<open>copy\<close>, and for a move whose source is the target itself, the world is
  unchanged: nothing is copied and the source is untouched. For a move from a different
  path the only call made is the removal of the source: the source no longer exists, and
  every path outside it keeps its entry.
\<close>

theorem stageAsset_already_staged:
  assumes "existsSync (files w) target"
  shows "(style' = Copy \<or> source = target \<longrightarrow>
            stageAsset E this source target style' w = (Inr (), w))
       \<and> (style' = Move \<and> source \<noteq> target \<longrightarrow>
            stageAsset E this source target style' w = (Inr (), removeSync source w)
            \<and> \<not> existsSync (files (removeSync source w)) source
            \<and> trace (removeSync source w) = trace w @ [RemoveSync source]
            \<and> (\<forall>p. \<not> within source p \<longrightarrow>
                  map_of (files (removeSync source w)) p = map_of (files w) p))"
  using assms
  by (auto simp: stageAsset_def existsSync_def removeSync_files removeSync_trace within_def)

text \<open>
  Witness for C2: a copy onto the staged directory, and a move from a temporary bundle
  directory onto it, which removes the temporary directory and keeps the staged file.
\<close>

theorem stageAsset_already_staged_witness:
  "stageAsset example_env example_staging ''/src/app'' ''/out/asset.abc'' Copy staged_world
     = (Inr (), staged_world)
   \<and> stageAsset example_env example_staging ''/out/bundling-temp-k1'' ''/out/asset.abc'' Move
        (staged_world\<lparr>files := files staged_world @ [(''/out/bundling-temp-k1'', Directory)]\<rparr>)
     = (Inr (), removeSync ''/out/bundling-temp-k1''
                  (staged_world\<lparr>files := files staged_world @ [(''/out/bundling-temp-k1'', Directory)]\<rparr>))
   \<and> \<not> existsSync
         (files (removeSync ''/out/bundling-temp-k1''
                  (staged_world\<lparr>files := files staged_world @ [(''/out/bundling-temp-k1'', Directory)]\<rparr>)))
         ''/out/bundling-temp-k1''
   \<and> map_of (files (removeSync ''/out/bundling-temp-k1''
                  (staged_world\<lparr>files := files staged_world @ [(''/out/bundling-temp-k1'', Directory)]\<rparr>)))
         ''/out/asset.abc/index.js'' = Some (File ''bundled'')"
proof -
  let ?w = "staged_world\<lparr>files := files staged_world @ [(''/out/bundling-temp-k1'', Directory)]\<rparr>"
  have e1: "existsSync (files staged_world) ''/out/asset.abc''"
    by (simp add: staged_world_def existsSync_def)
  have e2: "existsSync (files ?w) ''/out/asset.abc''"
    by (simp add: staged_world_def existsSync_def)
  have out: "\<not> within ''/out/bundling-temp-k1'' ''/out/asset.abc/index.js''"
    by (simp add: within_def beneath_def)
  from stageAsset_already_staged [OF e1, of Copy "''/src/app''" example_env example_staging]
  have a: "stageAsset example_env example_staging ''/src/app'' ''/out/asset.abc'' Copy staged_world
     = (Inr (), staged_world)" by simp
  from stageAsset_already_staged [OF e2, of Move "''/out/bundling-temp-k1''" example_env example_staging]
  have b: "stageAsset example_env example_staging ''/out/bundling-temp-k1'' ''/out/asset.abc'' Move ?w
             = (Inr (), removeSync ''/out/bundling-temp-k1'' ?w)"
    and c: "\<not> existsSync (files (removeSync ''/out/bundling-temp-k1'' ?w)) ''/out/bundling-temp-k1''"
    and d: "\<forall>p. \<not> within ''/out/bundling-temp-k1'' p \<longrightarrow>
              map_of (files (removeSync ''/out/bundling-temp-k1'' ?w)) p = map_of (files ?w) p"
    by simp_all
  from d out have "map_of (files (removeSync ''/out/bundling-temp-k1'' ?w)) ''/out/asset.abc/index.js''
      = map_of (files ?w) ''/out/asset.abc/index.js''" by blast
  then have e: "map_of (files (removeSync ''/out/bundling-temp-k1'' ?w)) ''/out/asset.abc/index.js''
      = Some (File ''bundled'')" by (simp add: staged_world_def)
  from a b c e show ?thesis by (intro conjI)
qed

subsection \<open>Skipped staging\<close>

text \<open>
  Claim C5, as stated, at a request with the hash type \<^verbatim>\<open>CUSTOM\<close> and the seed
  \<^verbatim>\<open>v1\<close>: with the skip flag set the staged path is the source path, but the hash is the
  digest of the seed, not the fingerprint the type \<^verbatim>\<open>SOURCE\<close> gives.
\<close>

theorem stageByCopying_custom_hash:
  "determineHashType (hashType_text example_env) (Some CUSTOM) (Some ''v1'') = Inr (hashType custom_staging)
   \<and> customSourceFingerprint custom_staging = Some ''v1''
   \<and> stageByCopying example_env custom_staging True example_world
       = (Inr \<lparr>stagedPath = ''/src/app'', assetHash = ''sha256:v1''\<rparr>, example_world)
   \<and> calculateHash example_env custom_staging (files example_world) SOURCE None None
       = Inr ''fingerprint:/src/app''"
  by (simp add: stageByCopying_def calculateHash_def stageAsset_def determineHashType_def Let_def
      custom_staging_def example_staging_def example_env_def example_world_def existsSync_def)

text \<open>
  Claim C5, amended. For a copy with the skip flag set and an existing source, the staged
  path is the source path and nothing in the world changes; the hash is the one of the
  resolved hash type: the fingerprint of the source for \<^verbatim>\<open>SOURCE\<close>, the digest of the seed
  for \<^verbatim>\<open>CUSTOM\<close>; for \<^verbatim>\<open>BUNDLE\<close> and \<^verbatim>\<open>OUTPUT\<close> the request fails.
\<close>

theorem stageByCopying_skip:
  assumes "existsSync (files w) (sourcePath this)"
  shows "(hashType this = SOURCE \<longrightarrow>
            stageByCopying E this True w
              = (case fingerprint E (files w) (sourcePath this) (fingerprintOptions this) of
                   Inl e \<Rightarrow> (Inl e, w)
                 | Inr h \<Rightarrow> (Inr \<lparr>stagedPath = sourcePath this, assetHash = h\<rparr>, w)))
       \<and> (hashType this = CUSTOM \<and> customSourceFingerprint this = Some seed \<longrightarrow>
            stageByCopying E this True w
              = (Inr \<lparr>stagedPath = sourcePath this, assetHash = sha256 E seed\<rparr>, w))
       \<and> (hashType this = BUNDLE \<or> hashType this = OUTPUT \<longrightarrow>
            stageByCopying E this True w
              = (Inl (Error (''Cannot use `'' @ hashType_text E (hashType this)
                             @ ''` hash type when `bundling` is not specified.'')), w))"
  using assms
  by (auto simp: stageByCopying_def calculateHash_def stageAsset_exists_copy Let_def split: sum.split)

text \<open>
  Witness for C5 on the example request, with and without a seed.
\<close>

theorem stageByCopying_skip_witness:
  "stageByCopying example_env example_staging True example_world
     = (Inr \<lparr>stagedPath = ''/src/app'', assetHash = ''fingerprint:/src/app''\<rparr>, example_world)
   \<and> stageByCopying example_env custom_staging True example_world
     = (Inr \<lparr>stagedPath = ''/src/app'', assetHash = ''sha256:v1''\<rparr>, example_world)"
proof -
  have e1: "existsSync (files example_world) (sourcePath example_staging)"
    by (simp add: example_world_def example_staging_def existsSync_def)
  have e2: "existsSync (files example_world) (sourcePath custom_staging)"
    by (simp add: example_world_def example_staging_def custom_staging_def existsSync_def)
  from stageByCopying_skip [OF e1, where E = example_env]
  have a: "stageByCopying example_env example_staging True example_world
     = (Inr \<lparr>stagedPath = ''/src/app'', assetHash = ''fingerprint:/src/app''\<rparr>, example_world)"
    by (simp add: example_staging_def example_env_def example_world_def existsSync_def)
  from stageByCopying_skip [OF e2, where E = example_env and seed = "''v1''"]
  have b: "stageByCopying example_env custom_staging True example_world
     = (Inr \<lparr>stagedPath = ''/src/app'', assetHash = ''sha256:v1''\<rparr>, example_world)"
    by (simp add: example_staging_def custom_staging_def example_env_def)
  from a b show ?thesis by (intro conjI)
qed

text \<open>
  Claim C6. For a bundling request with the skip flag set, the result is the fingerprint
  of the source (what the type \<^verbatim>\<open>SOURCE\<close> gives without a transformation) together with
  the source path as staged path, whatever the hash type of the request; the world is
  unchanged: no transformation ran and no directory was created.
\<close>

theorem stageByBundling_skip:
  "stageByBundling E this bundling True w
     = (case fingerprint E (files w) (sourcePath this) (fingerprintOptions this) of
          Inl e \<Rightarrow> (Inl e, w)
        | Inr h \<Rightarrow> (Inr \<lparr>stagedPath = sourcePath this, assetHash = h\<rparr>, w))
   \<and> calculateHash E this (files w) SOURCE None None
       = fingerprint E (files w) (sourcePath this) (fingerprintOptions this)
   \<and> snd (stageByBundling E this bundling True w) = w"
  by (simp add: stageByBundling_def calculateHash_source_plain split: sum.split)

text \<open>
  Witness for C6: a request with a seed and a transformation, skipped.
\<close>

theorem stageByBundling_skip_witness:
  "stageByBundling example_env custom_staging working_bundling True example_world
     = (Inr \<lparr>stagedPath = ''/src/app'', assetHash = ''fingerprint:/src/app''\<rparr>, example_world)
   \<and> trace (snd (stageByBundling example_env custom_staging working_bundling True example_world)) = []"
  using stageByBundling_skip [of example_env custom_staging working_bundling example_world]
  by (simp add: example_staging_def custom_staging_def example_env_def example_world_def existsSync_def)

subsection \<open>The cache key\<close>





















subsection \<open>Failure of the transformation\<close>























text \<open>
  Claim C9. The code at a transformation that succeeds and writes nothing: the staging
  request throws the error that says so, no error directory exists afterwards, and the
  empty bundle directory is still in place. The same request issued again in that world
  finds the directory, runs no transformation (the only call it makes is the renaming) and
  returns without error a staged directory that is empty.
\<close>

theorem empty_output_staged_on_next_run:
  "stageByBundling example_env output_staging silent_bundling False example_world
     = (Inl (Error ''Bundling did not produce any output. Check that content is written to /out/bundling-temp-k1.''),
        after_silent_run)
   \<and> \<not> existsSync (files after_silent_run) ''/out/bundling-temp-k1-error''
   \<and> existsSync (files after_silent_run) ''/out/bundling-temp-k1''
   \<and> isEmpty (files after_silent_run) ''/out/bundling-temp-k1''
   \<and> fst (stageByBundling example_env output_staging silent_bundling False after_silent_run)
       = Inr \<lparr>stagedPath = ''/out/asset.fingerprint:/out/bundling-temp-k1'',
              assetHash = ''fingerprint:/out/bundling-temp-k1''\<rparr>
   \<and> trace (snd (stageByBundling example_env output_staging silent_bundling False after_silent_run))
       = trace after_silent_run
         @ [RenameSync ''/out/bundling-temp-k1'' ''/out/asset.fingerprint:/out/bundling-temp-k1'']
   \<and> existsSync
        (files (snd (stageByBundling example_env output_staging silent_bundling False
                       after_silent_run)))
        ''/out/asset.fingerprint:/out/bundling-temp-k1''
   \<and> isEmpty
        (files (snd (stageByBundling example_env output_staging silent_bundling False
                       after_silent_run)))
        ''/out/asset.fingerprint:/out/bundling-temp-k1''"
  by (simp add: stageByBundling_def determineBundleDir_def bundle_asset_def calculateHash_def
      stageAsset_def renderAssetFilename_def try_bundling_def renameSync_def moved_def
      chmodSync_def ensureDirSync_def stderr_write_def isEmpty_def within_def beneath_def
      existsSync_def Let_def silent_bundling_def example_staging_def output_staging_def
      example_env_def example_world_def after_silent_run_def)

subsection \<open>Bundling into the staged path\<close>

text \<open>
  Claim C10. When the hash type is \<^verbatim>\<open>SOURCE\<close> or \<^verbatim>\<open>CUSTOM\<close> and the digest is never the
  empty string, the hash is known before bundling, the bundle directory is the staged path
  \<^verbatim>\<open>asset.<hash>\<close> in the output directory, the move of that directory onto itself
  changes nothing, and a request whose bundling succeeded returns with the world as the
  bundling left it.
\<close>

theorem bundleDir_is_stagedPath:
  assumes strategy: "hashType this = SOURCE \<or> hashType this = CUSTOM"
    and digest: "\<forall>text. sha256 E text \<noteq> []"
    and early: "calculateHash E this (files w) (hashType this) (Some bundling) None = Inr h"
  shows "determineBundleDir E this (outdir this) (Some h)
           = path_resolve E (outdir this) (renderAssetFilename h [])
       \<and> (existsSync (files w1) (determineBundleDir E this (outdir this) (Some h)) \<longrightarrow>
            stageAsset E this (determineBundleDir E this (outdir this) (Some h))
              (path_resolve E (outdir this) (renderAssetFilename h [])) Move w1 = (Inr (), w1))
       \<and> (bundle_asset E this bundling (determineBundleDir E this (outdir this) (Some h)) w = (Inr (), w1)
            \<and> existsSync (files w1) (determineBundleDir E this (outdir this) (Some h)) \<longrightarrow>
            stageByBundling E this bundling False w
              = (Inr \<lparr>stagedPath = determineBundleDir E this (outdir this) (Some h), assetHash = h\<rparr>, w1))"
proof -
  from early strategy digest have nonempty: "h \<noteq> []"
    by (auto simp: calculateHash_before_bundling split: sum.splits option.splits)
  then have dir: "determineBundleDir E this (outdir this) (Some h)
           = path_resolve E (outdir this) (renderAssetFilename h [])"
    by (simp add: determineBundleDir_def)
  have place: "stageAsset E this (determineBundleDir E this (outdir this) (Some h))
              (path_resolve E (outdir this) (renderAssetFilename h [])) Move w1 = (Inr (), w1)"
    if "existsSync (files w1) (determineBundleDir E this (outdir this) (Some h))"
    using that by (simp add: dir stageAsset_onto_itself)
  have whole: "stageByBundling E this bundling False w
              = (Inr \<lparr>stagedPath = determineBundleDir E this (outdir this) (Some h), assetHash = h\<rparr>, w1)"
    if "bundle_asset E this bundling (determineBundleDir E this (outdir this) (Some h)) w = (Inr (), w1)"
      and "existsSync (files w1) (determineBundleDir E this (outdir this) (Some h))"
    using that place strategy early by (auto simp: stageByBundling_def Let_def dir)
  from dir place whole show ?thesis by blast
qed

text \<open>
  Witness for C10: the working transformation on the example request; the bundled file is
  in the staged directory at the end.
\<close>

theorem bundleDir_is_stagedPath_witness:
  "stageByBundling example_env example_staging working_bundling False example_world
     = (Inr \<lparr>stagedPath = ''/out/asset.sha256:fingerprint:/src/app{}'',
             assetHash = ''sha256:fingerprint:/src/app{}''\<rparr>, bundled_world)
   \<and> map_of (files bundled_world) ''/out/asset.sha256:fingerprint:/src/app{}/index.js''
       = Some (File ''bundled'')"
proof -
  have strategy: "hashType example_staging = SOURCE \<or> hashType example_staging = CUSTOM"
    by (simp add: example_staging_def)
  have digest: "\<forall>text. sha256 example_env text \<noteq> []"
    by (simp add: example_env_def)
  have early: "calculateHash example_env example_staging (files example_world)
                 (hashType example_staging) (Some working_bundling) None
               = Inr ''sha256:fingerprint:/src/app{}''"
    by (simp add: calculateHash_def example_staging_def example_env_def example_world_def
        existsSync_def)
  have dir: "determineBundleDir example_env example_staging (outdir example_staging)
               (Some ''sha256:fingerprint:/src/app{}'')
             = ''/out/asset.sha256:fingerprint:/src/app{}''"
    by (simp add: determineBundleDir_def renderAssetFilename_def example_staging_def example_env_def)
  have run: "bundle_asset example_env example_staging working_bundling
               ''/out/asset.sha256:fingerprint:/src/app{}'' example_world = (Inr (), bundled_world)"
    by (simp add: bundle_asset_def try_bundling_def chmodSync_def ensureDirSync_def
        stderr_write_def isEmpty_def beneath_def existsSync_def Let_def
        working_bundling_def example_staging_def example_world_def bundled_world_def)
  have there: "existsSync (files bundled_world) ''/out/asset.sha256:fingerprint:/src/app{}''"
    by (simp add: bundled_world_def existsSync_def)
  from bundleDir_is_stagedPath [OF strategy digest early, where ?w1.0 = bundled_world] run there
  have "stageByBundling example_env example_staging working_bundling False example_world
     = (Inr \<lparr>stagedPath = ''/out/asset.sha256:fingerprint:/src/app{}'',
             assetHash = ''sha256:fingerprint:/src/app{}''\<rparr>, bundled_world)"
    by (simp add: dir)
  moreover have "map_of (files bundled_world) ''/out/asset.sha256:fingerprint:/src/app{}/index.js''
       = Some (File ''bundled'')"
    by (simp add: bundled_world_def)
  ultimately show ?thesis by (intro conjI)
qed

end
